theory Spec2Isabelle
  imports Complex_Main
begin

section \<open>The relaxation curve-fitting module \<open>relax_fit.c\<close>\<close>

text \<open>
  The module is a CPython extension with five entry points (\<open>setup\<close>, \<open>func\<close>,
  \<open>dfunc\<close>, \<open>d2func\<close>, \<open>back_calc_I\<close>) working on file-scope variables.
  The model below follows the C text statement by statement: the file-scope variables
  are a record that every entry point receives and returns, each \<open>for\<close> loop is a
  recursive function over the loop index, a \<open>NULL\<close> return is an outcome of its own,
  as is an object returned while a Python exception is pending, and a read or write
  outside an array is the outcome \<open>UndefinedBehaviour\<close>.
\<close>

subsection \<open>C doubles\<close>

text \<open>
  A \<open>double\<close> is a finite number, one of the two infinities, or a NaN. The finite
  doubles are the numbers \<open>m * 2^e\<close> with \<open>|m| < 2^53\<close> and \<open>-1074 \<le> e \<le> 971\<close>
  (IEEE 754 binary64, subnormal numbers included). Zero carries no sign: a finite non-zero
  number divided by zero has the sign of the numerator.
\<close>

datatype cdouble = Fin real | PInf | NInf | NaN

definition is_double :: "real \<Rightarrow> bool" where
  "is_double x =
     (\<exists>m e :: int. \<bar>m\<bar> < 2 ^ 53 \<and> - 1074 \<le> e \<and> e \<le> 971 \<and> x = of_int m * 2 powr of_int e)"

text \<open>
  The numbers of single precision (binary32): \<open>m * 2^e\<close> with \<open>|m| < 2^24\<close> and
  \<open>-149 \<le> e \<le> 104\<close>.
\<close>

definition is_float32 :: "real \<Rightarrow> bool" where
  "is_float32 x =
     (\<exists>m e :: int. \<bar>m\<bar> < 2 ^ 24 \<and> - 149 \<le> e \<and> e \<le> 104 \<and> x = of_int m * 2 powr of_int e)"

text \<open>
  Every arithmetic operation rounds its exact result to the nearest double, a tie going
  to the even significand, and overflows to an infinity. \<open>round_half_even\<close> rounds to
  the nearest integer, \<open>ulp_exponent x\<close> is the exponent of the last place of the
  doubles around \<open>x\<close>.
\<close>

definition round_half_even :: "real \<Rightarrow> int" where
  "round_half_even q =
     (let f = \<lfloor>q\<rfloor>
      in if q - of_int f < 1 / 2 then f
         else if 1 / 2 < q - of_int f then f + 1
         else if even f then f else f + 1)"

definition ulp_exponent :: "real \<Rightarrow> int" where
  "ulp_exponent x = max (\<lfloor>log 2 \<bar>x\<bar>\<rfloor> - 52) (- 1074)"

definition round_double :: "real \<Rightarrow> cdouble" where
  "round_double x =
     (if x = 0 then Fin 0
      else let e = ulp_exponent x;
               y = of_int (round_half_even (x / 2 powr of_int e)) * 2 powr of_int e
           in if 2 ^ 1024 \<le> \<bar>y\<bar> then (if 0 < x then PInf else NInf) else Fin y)"

fun d_neg :: "cdouble \<Rightarrow> cdouble" where
  "d_neg (Fin a) = Fin (- a)"
| "d_neg PInf = NInf"
| "d_neg NInf = PInf"
| "d_neg NaN = NaN"

fun d_add :: "cdouble \<Rightarrow> cdouble \<Rightarrow> cdouble" where
  "d_add (Fin a) (Fin b) = round_double (a + b)"
| "d_add NaN _ = NaN"
| "d_add _ NaN = NaN"
| "d_add PInf NInf = NaN"
| "d_add NInf PInf = NaN"
| "d_add PInf _ = PInf"
| "d_add _ PInf = PInf"
| "d_add NInf _ = NInf"
| "d_add _ NInf = NInf"

definition d_sub :: "cdouble \<Rightarrow> cdouble \<Rightarrow> cdouble" where
  "d_sub x y = d_add x (d_neg y)"

text \<open>An infinity of the sign of \<open>a\<close> (of a product or quotient with a positive infinity).\<close>

definition inf_signed :: "real \<Rightarrow> cdouble" where
  "inf_signed a = (if a = 0 then NaN else if 0 < a then PInf else NInf)"

fun d_mul :: "cdouble \<Rightarrow> cdouble \<Rightarrow> cdouble" where
  "d_mul (Fin a) (Fin b) = round_double (a * b)"
| "d_mul NaN _ = NaN"
| "d_mul _ NaN = NaN"
| "d_mul (Fin a) PInf = inf_signed a"
| "d_mul (Fin a) NInf = inf_signed (- a)"
| "d_mul PInf (Fin b) = inf_signed b"
| "d_mul NInf (Fin b) = inf_signed (- b)"
| "d_mul PInf PInf = PInf"
| "d_mul NInf NInf = PInf"
| "d_mul PInf NInf = NInf"
| "d_mul NInf PInf = NInf"

fun d_div :: "cdouble \<Rightarrow> cdouble \<Rightarrow> cdouble" where
  "d_div (Fin a) (Fin b) = (if b = 0 then inf_signed a else round_double (a / b))"
| "d_div NaN _ = NaN"
| "d_div _ NaN = NaN"
| "d_div (Fin a) PInf = Fin 0"
| "d_div (Fin a) NInf = Fin 0"
| "d_div PInf (Fin b) = (if 0 \<le> b then PInf else NInf)"
| "d_div NInf (Fin b) = (if 0 \<le> b then NInf else PInf)"
| "d_div PInf PInf = NaN"
| "d_div NInf NInf = NaN"
| "d_div PInf NInf = NaN"
| "d_div NInf PInf = NaN"

text \<open>The exponential of the C library, taken as correctly rounded.\<close>

fun d_exp :: "cdouble \<Rightarrow> cdouble" where
  "d_exp (Fin a) = round_double (exp a)"
| "d_exp PInf = PInf"
| "d_exp NInf = Fin 0"
| "d_exp NaN = NaN"

fun is_finite :: "cdouble \<Rightarrow> bool" where
  "is_finite (Fin a) = True"
| "is_finite _ = False"

fun the_real :: "cdouble \<Rightarrow> real" where
  "the_real (Fin a) = a"
| "the_real _ = 0"

subsection \<open>Python objects and the CPython calls the module makes\<close>

text \<open>
  The objects that reach the module: \<open>None\<close>, integers, floats and lists. \<open>PyNone\<close>
  also stands for any object that is neither a number nor a sequence.
\<close>

datatype pyobj = PyNone | PyInt int | PyFloat cdouble | PyList "pyobj list"

text \<open>
  \<open>PySequence_GetItem(o, i)\<close> with \<open>i \<ge> 0\<close>: the item, or \<open>NULL\<close> (here \<open>None\<close>)
  when \<open>o\<close> is no sequence or \<open>i\<close> is past its end.
\<close>

fun PySequence_GetItem :: "pyobj \<Rightarrow> nat \<Rightarrow> pyobj option" where
  "PySequence_GetItem (PyList xs) i = (if i < length xs then Some (xs ! i) else None)"
| "PySequence_GetItem _ i = None"

text \<open>
  \<open>PyFloat_AsDouble\<close>: the value of a float; an integer rounded to a double, unless
  it is too large for one; and \<open>-1.0\<close> on failure (a \<open>NULL\<close> argument, an object that
  is no number, an integer too large).
\<close>

fun PyFloat_AsDouble :: "pyobj option \<Rightarrow> cdouble" where
  "PyFloat_AsDouble (Some (PyFloat d)) = d"
| "PyFloat_AsDouble (Some (PyInt n)) =
     (if is_finite (round_double (of_int n)) then round_double (of_int n) else Fin (- 1))"
| "PyFloat_AsDouble _ = Fin (- 1)"

text \<open>
  A failed \<open>PySequence_GetItem\<close> or \<open>PyFloat_AsDouble\<close> also sets the interpreter's
  error indicator. \<open>conversion_error\<close> says whether converting an item does, and
  \<open>seq_error arg n\<close> whether the indicator is set after a loop has converted the items
  \<open>0 .. n - 1\<close> of \<open>arg\<close>: the module never tests or clears the indicator.
\<close>

fun conversion_error :: "pyobj option \<Rightarrow> bool" where
  "conversion_error (Some (PyFloat d)) = False"
| "conversion_error (Some (PyInt n)) = (\<not> is_finite (round_double (of_int n)))"
| "conversion_error _ = True"

definition seq_error :: "pyobj \<Rightarrow> nat \<Rightarrow> bool" where
  "seq_error arg n = list_ex (\<lambda>k. conversion_error (PySequence_GetItem arg k)) [0..<n]"

text \<open>\<open>Py_BuildValue("f", x)\<close>: a Python float holding \<open>x\<close>.\<close>

definition Py_BuildValue_f :: "cdouble \<Rightarrow> pyobj" where
  "Py_BuildValue_f x = PyFloat x"

text \<open>
  The format unit \<open>i\<close> of \<open>PyArg_Parse*\<close>: a Python integer within the range of a
  32-bit C \<open>int\<close>; anything else makes the parse fail (Python 3).
\<close>

fun parse_i :: "pyobj \<Rightarrow> int option" where
  "parse_i (PyInt n) = (if - 2147483648 \<le> n \<and> n \<le> 2147483647 then Some n else None)"
| "parse_i _ = None"

subsection \<open>The file-scope variables\<close>

text \<open>
  \<open>params\<close>, \<open>values\<close>, \<open>sd\<close>, \<open>relax_times\<close> and \<open>scaling_matrix\<close> are
  pointers to \<open>malloc\<close>ed arrays (a list here, its length the allocated size, the
  empty list for \<open>NULL\<close>); \<open>back_calc\<close> is an array of fixed size declared in
  \<open>relax_fit.h\<close>.
\<close>

record module_state =
  params :: "cdouble list"
  values_arr :: "cdouble list"
  sd :: "cdouble list"
  relax_times :: "cdouble list"
  scaling_matrix :: "cdouble list"
  num_params :: int
  num_times :: int
  back_calc :: "cdouble list"

text \<open>
  The variables when the module is loaded. \<open>relax_fit.h\<close> is not part of the sources
  at hand: the variables are taken to be declared without initialisers, hence zeroed
  (C static storage), and the size \<open>MAXTIMES\<close> of \<open>back_calc\<close> is a parameter.
\<close>

definition module_init :: "nat \<Rightarrow> module_state" where
  "module_init MAXTIMES =
     \<lparr>params = [], values_arr = [], sd = [], relax_times = [], scaling_matrix = [],
      num_params = 0, num_times = 0, back_calc = replicate MAXTIMES (Fin 0)\<rparr>"

text \<open>
  What an entry point does: it returns an object with no exception pending; it returns
  \<open>NULL\<close> (the caller sees an exception); it returns an object while the error indicator
  is set, and then the interpreter (Python 3) drops the object and raises
  \<open>SystemError\<close> in the caller; or its behaviour is undefined in C.
\<close>

datatype outcome =
    Returned pyobj module_state
  | ReturnedNULL module_state
  | RaisedSystemError module_state
  | UndefinedBehaviour

text \<open>
  \<open>malloc(sizeof(double) * n)\<close>: \<open>n\<close> cells of indeterminate content when \<open>n > 0\<close>
  (allocation is taken to succeed); for \<open>n \<le> 0\<close> no cell is ever accessed. The
  indeterminate content is modelled as NaN cells.
\<close>

definition malloc_double :: "int \<Rightarrow> cdouble list" where
  "malloc_double n = replicate (nat n) NaN"

subsection \<open>The external helpers\<close>

text \<open>
  Modelled from the spec: \<open>chi2\<close> of \<open>c_chi2.h\<close>, which is not part of the sources at
  hand. The spec gives \<open>sum_{i=0..n-1} ((values[i] - back_calc[i]) / sd[i])^2\<close>,
  reduced in index-ascending order, and notes that the division is unchecked. The loop
  runs \<open>i\<close> from \<open>0\<close> while \<open>i < num_times\<close>, adding one term to the accumulator.
  First the term at index \<open>i\<close>.
\<close>

definition chi2_term :: "cdouble list \<Rightarrow> cdouble list \<Rightarrow> cdouble list \<Rightarrow> nat \<Rightarrow> cdouble" where
  "chi2_term vs sds bc i =
     (let r = d_div (d_sub (vs ! i) (bc ! i)) (sds ! i) in d_mul r r)"

text \<open>
  Modelled from the spec: the accumulation loop of the absent \<open>chi2\<close>, index
  ascending.
\<close>

function chi2_loop ::
  "cdouble list \<Rightarrow> cdouble list \<Rightarrow> cdouble list \<Rightarrow> nat \<Rightarrow> nat \<Rightarrow> cdouble \<Rightarrow> cdouble" where
  "chi2_loop vs sds bc n i acc =
     (if i < n then chi2_loop vs sds bc n (Suc i) (d_add acc (chi2_term vs sds bc i))
      else acc)"
  by pat_completeness auto
termination
  by (relation "measure (\<lambda>(vs, sds, bc, n, i, acc). n - i)") auto

text \<open>
  Modelled from the spec: the absent \<open>chi2(values, sd, back_calc, num_times)\<close>, the
  loop started at index \<open>0\<close> with the accumulator \<open>0.0\<close>.
\<close>

definition chi2 :: "cdouble list \<Rightarrow> cdouble list \<Rightarrow> cdouble list \<Rightarrow> int \<Rightarrow> cdouble" where
  "chi2 vs sds bc n = chi2_loop vs sds bc (nat n) 0 (Fin 0)"

text \<open>
  The model evaluator \<open>exponential(params, relax_times, back_calc, num_times)\<close> of
  \<open>exponential.h\<close> is not part of the sources at hand either. The entry points take it
  as a parameter: a function from the scaled parameters, the time points, the buffer as
  it is and the number of points to the buffer as the call leaves it.
\<close>

type_synonym evaluator = "cdouble list \<Rightarrow> cdouble list \<Rightarrow> cdouble list \<Rightarrow> int \<Rightarrow> cdouble list"

text \<open>An evaluator writes into the caller's buffer: the buffer keeps its size.\<close>

definition keeps_size :: "evaluator \<Rightarrow> bool" where
  "keeps_size ev = (\<forall>ps ts bc n. length (ev ps ts bc n) = length bc)"

text \<open>
  Modelled from the spec: the two-parameter evaluator
  \<open>back_calc[i] = params[0] * exp(-params[1] * times[i])\<close> for \<open>i < num_times\<close>, written
  in place, for \<open>num_params \<ge> 2\<close>. The buffer keeps its size: a cell past its end is
  not written. It serves as the concrete evaluator of the examples.
\<close>

definition exponential :: evaluator where
  "exponential ps ts bc n =
     map (\<lambda>i. d_mul (ps ! 0) (d_exp (d_neg (d_mul (ps ! 1) (ts ! i))))) [0..<min (nat n) (length bc)]
     @ drop (nat n) bc"

subsection \<open>\<open>setup\<close>\<close>

text \<open>
  The first loop of \<open>setup\<close>: \<open>scaling_matrix[i] = PyFloat_AsDouble(PySequence_GetItem(
  scaling_matrix_arg, i))\<close> for \<open>i < num_params\<close>.
\<close>

function setup_params_loop :: "pyobj \<Rightarrow> nat \<Rightarrow> nat \<Rightarrow> cdouble list \<Rightarrow> cdouble list" where
  "setup_params_loop arg n i sm =
     (if i < n
      then setup_params_loop arg n (Suc i) (sm[i := PyFloat_AsDouble (PySequence_GetItem arg i)])
      else sm)"
  by pat_completeness auto
termination
  by (relation "measure (\<lambda>(arg, n, i, sm). n - i)") auto

text \<open>
  The second loop: for \<open>i < num_times\<close>, one cell each of \<open>values\<close>, \<open>sd\<close> and
  \<open>relax_times\<close>, in this order.
\<close>

function setup_times_loop ::
  "pyobj \<Rightarrow> pyobj \<Rightarrow> pyobj \<Rightarrow> nat \<Rightarrow> nat \<Rightarrow> cdouble list \<times> cdouble list \<times> cdouble list
   \<Rightarrow> cdouble list \<times> cdouble list \<times> cdouble list" where
  "setup_times_loop varg sarg rarg n i arrs =
     (if i < n
      then (case arrs of (vs, sds, rts) \<Rightarrow>
              setup_times_loop varg sarg rarg n (Suc i)
                (vs[i := PyFloat_AsDouble (PySequence_GetItem varg i)],
                 sds[i := PyFloat_AsDouble (PySequence_GetItem sarg i)],
                 rts[i := PyFloat_AsDouble (PySequence_GetItem rarg i)]))
      else arrs)"
  by pat_completeness auto
termination
  by (relation "measure (\<lambda>(varg, sarg, rarg, n, i, arrs). n - i)") auto

text \<open>
  \<open>setup\<close> proper, on its positional arguments (keyword passing is not modelled).
  \<open>PyArg_ParseTupleAndKeywords\<close> with \<open>"iiOOOO"\<close> refuses more than six arguments
  before converting any; then it converts argument after argument, storing each
  \<open>i\<close> straight into \<open>num_params\<close> and \<open>num_times\<close>, and fails at the first
  argument that is missing or not a C \<open>int\<close>. After a successful parse nothing is
  checked: the five arrays are allocated, the two loops run, and \<open>Py_None\<close> is
  returned, also when a conversion in a loop has failed and left an exception pending.
\<close>

definition setup_fn :: "module_state \<Rightarrow> pyobj list \<Rightarrow> outcome" where
  "setup_fn st args =
     (if 6 < length args then ReturnedNULL st
      else case args of
        [] \<Rightarrow> ReturnedNULL st
      | a0 # rest0 \<Rightarrow>
         (case parse_i a0 of
            None \<Rightarrow> ReturnedNULL st
          | Some np \<Rightarrow>
             (let st1 = st\<lparr>num_params := np\<rparr> in
              case rest0 of
                [] \<Rightarrow> ReturnedNULL st1
              | a1 # rest1 \<Rightarrow>
                 (case parse_i a1 of
                    None \<Rightarrow> ReturnedNULL st1
                  | Some nt \<Rightarrow>
                     (let st2 = st1\<lparr>num_times := nt\<rparr> in
                      case rest1 of
                        [values_arg, sd_arg, relax_times_arg, scaling_matrix_arg] \<Rightarrow>
                          (let sm = setup_params_loop scaling_matrix_arg (nat np) 0 (malloc_double np);
                               arrs = setup_times_loop values_arg sd_arg relax_times_arg (nat nt) 0
                                        (malloc_double nt, malloc_double nt, malloc_double nt);
                               st3 = (case arrs of (vs, sds, rts) \<Rightarrow>
                                        st2\<lparr>params := malloc_double np, values_arr := vs,
                                            sd := sds, relax_times := rts,
                                            scaling_matrix := sm\<rparr>)
                           in if seq_error scaling_matrix_arg (nat np)
                                 \<or> seq_error values_arg (nat nt)
                                 \<or> seq_error sd_arg (nat nt)
                                 \<or> seq_error relax_times_arg (nat nt)
                              then RaisedSystemError st3
                              else Returned PyNone st3)
                      | _ \<Rightarrow> ReturnedNULL st2)))))"

subsection \<open>\<open>func\<close>\<close>

text \<open>
  The loop of \<open>func\<close>: \<open>params[i] = PyFloat_AsDouble(PySequence_GetItem(params_arg, i))\<close>,
  then \<open>params[i] = params[i] * scaling_matrix[i]\<close>, for \<open>i < num_params\<close>.
\<close>

function func_loop :: "pyobj \<Rightarrow> cdouble list \<Rightarrow> nat \<Rightarrow> nat \<Rightarrow> cdouble list \<Rightarrow> cdouble list" where
  "func_loop arg sm n i ps =
     (if i < n
      then func_loop arg sm n (Suc i)
             (ps[i := d_mul (PyFloat_AsDouble (PySequence_GetItem arg i)) (sm ! i)])
      else ps)"
  by pat_completeness auto
termination
  by (relation "measure (\<lambda>(arg, sm, n, i, ps). n - i)") auto

text \<open>
  \<open>func\<close>: one argument is parsed with \<open>"O"\<close>; the loop fills \<open>params\<close>; the evaluator
  rewrites \<open>back_calc\<close>; the value of \<open>chi2(values, sd, back_calc, num_times)\<close> is
  returned as a Python float. The loop touches cells \<open>0 .. num_params - 1\<close> of
  \<open>params\<close> and \<open>scaling_matrix\<close>, and \<open>chi2\<close> cells \<open>0 .. num_times - 1\<close> of
  \<open>values\<close>, \<open>sd\<close> and \<open>back_calc\<close>: where an array is shorter, the behaviour is
  undefined. A conversion that failed in the loop leaves an exception pending, and the
  float is returned all the same.
\<close>

definition func :: "evaluator \<Rightarrow> module_state \<Rightarrow> pyobj list \<Rightarrow> outcome" where
  "func ev st args =
     (case args of
        [params_arg] \<Rightarrow>
          (if length (params st) < nat (num_params st)
              \<or> length (scaling_matrix st) < nat (num_params st)
           then UndefinedBehaviour
           else
             (let ps = func_loop params_arg (scaling_matrix st) (nat (num_params st)) 0 (params st);
                  bc = ev ps (relax_times st) (back_calc st) (num_times st)
              in if length (values_arr st) < nat (num_times st)
                    \<or> length (sd st) < nat (num_times st)
                    \<or> length bc < nat (num_times st)
                 then UndefinedBehaviour
                 else if seq_error params_arg (nat (num_params st))
                 then RaisedSystemError (st\<lparr>params := ps, back_calc := bc\<rparr>)
                 else Returned (Py_BuildValue_f (chi2 (values_arr st) (sd st) bc (num_times st)))
                        (st\<lparr>params := ps, back_calc := bc\<rparr>)))
      | _ \<Rightarrow> ReturnedNULL st)"

subsection \<open>\<open>dfunc\<close>, \<open>d2func\<close> and \<open>back_calc_I\<close>\<close>

text \<open>
  \<open>dfunc\<close> declares a local pointer \<open>params\<close> that hides the file-scope one and is
  never assigned. After the parse it hands that pointer to the evaluator and returns
  \<open>NULL\<close>. The array the pointer happens to designate is the parameter \<open>junk\<close>.
\<close>

definition dfunc :: "evaluator \<Rightarrow> cdouble list \<Rightarrow> module_state \<Rightarrow> pyobj list \<Rightarrow> outcome" where
  "dfunc ev junk st args =
     (case args of
        [params_arg] \<Rightarrow>
          ReturnedNULL (st\<lparr>back_calc := ev junk (relax_times st) (back_calc st) (num_times st)\<rparr>)
      | _ \<Rightarrow> ReturnedNULL st)"

text \<open>\<open>d2func\<close> ignores its arguments and returns \<open>Py_BuildValue("f", 0.0)\<close>.\<close>

definition d2func :: "module_state \<Rightarrow> pyobj list \<Rightarrow> outcome" where
  "d2func st args = Returned (Py_BuildValue_f (Fin 0)) st"

text \<open>
  The loop of \<open>back_calc_I\<close>: \<open>PyList_SetItem(back_calc_py, i, Py_BuildValue("f",
  back_calc[i]))\<close> for \<open>i < num_times\<close>.
\<close>

function back_calc_I_loop :: "cdouble list \<Rightarrow> nat \<Rightarrow> nat \<Rightarrow> pyobj list \<Rightarrow> pyobj list" where
  "back_calc_I_loop bc n i py =
     (if i < n then back_calc_I_loop bc n (Suc i) (py[i := Py_BuildValue_f (bc ! i)])
      else py)"
  by pat_completeness auto
termination
  by (relation "measure (\<lambda>(bc, n, i, py). n - i)") auto

text \<open>
  \<open>back_calc_I\<close> parses nothing. \<open>PyList_New(num_times)\<close> is \<open>NULL\<close> for a negative
  size, and then the loop does not run and \<open>NULL\<close> is returned; otherwise it is a list
  of \<open>num_times\<close> empty slots (\<open>PyNone\<close> here) that the loop fills. Reading
  \<open>back_calc\<close> past its declared size is undefined.
\<close>

definition back_calc_I :: "module_state \<Rightarrow> pyobj list \<Rightarrow> outcome" where
  "back_calc_I st args =
     (if num_times st < 0 then ReturnedNULL st
      else if length (back_calc st) < nat (num_times st) then UndefinedBehaviour
      else Returned
             (PyList (back_calc_I_loop (back_calc st) (nat (num_times st)) 0
                        (replicate (nat (num_times st)) PyNone)))
             st)"

subsection \<open>Notions used to state the properties\<close>

text \<open>
  The first \<open>n\<close> items of a Python sequence as doubles, the way both loops of
  \<open>setup\<close> take them: item \<open>k\<close> through \<open>PySequence_GetItem\<close> and
  \<open>PyFloat_AsDouble\<close>.
\<close>

definition converted :: "pyobj \<Rightarrow> nat \<Rightarrow> cdouble list" where
  "converted arg n = map (\<lambda>k. PyFloat_AsDouble (PySequence_GetItem arg k)) [0..<n]"

text \<open>
  The spec's first step of the objective: every raw parameter times the scaling factor at
  the same position.
\<close>

definition scaled_params :: "pyobj list \<Rightarrow> cdouble list \<Rightarrow> cdouble list" where
  "scaled_params raw sm = map2 (\<lambda>x s. d_mul (PyFloat_AsDouble (Some x)) s) raw sm"

text \<open>
  The spec's objective as one step on the variables: scale, evaluate the model into
  \<open>back_calc\<close>, reduce with \<open>chi2\<close>.
\<close>

definition objective_step :: "evaluator \<Rightarrow> module_state \<Rightarrow> pyobj list \<Rightarrow> cdouble \<times> module_state" where
  "objective_step ev st raw =
     (let ps = scaled_params raw (scaling_matrix st);
          bc = ev ps (relax_times st) (back_calc st) (num_times st)
      in (chi2 (values_arr st) (sd st) bc (num_times st), st\<lparr>params := ps, back_calc := bc\<rparr>))"

text \<open>
  The arrays have the sizes that \<open>num_params\<close> and \<open>num_times\<close> announce, as
  \<open>setup\<close> leaves them, and \<open>back_calc\<close> has room for \<open>num_times\<close> cells.
\<close>

definition constructed :: "module_state \<Rightarrow> bool" where
  "constructed st =
     (length (params st) = nat (num_params st)
      \<and> length (scaling_matrix st) = nat (num_params st)
      \<and> length (values_arr st) = nat (num_times st)
      \<and> length (sd st) = nat (num_times st)
      \<and> length (relax_times st) = nat (num_times st)
      \<and> nat (num_times st) \<le> length (back_calc st))"




text \<open>A Python number that \<open>PyFloat_AsDouble\<close> converts without an error.\<close>

fun is_number :: "pyobj \<Rightarrow> bool" where
  "is_number (PyFloat d) = True"
| "is_number (PyInt n) = is_finite (round_double (of_int n))"
| "is_number _ = False"


text \<open>A \<open>rows\<close> by \<open>cols\<close> matrix of Python floats: a list of lists.\<close>

definition is_float_matrix :: "nat \<Rightarrow> nat \<Rightarrow> pyobj \<Rightarrow> bool" where
  "is_float_matrix rows cols obj =
     (case obj of
        PyList rs \<Rightarrow>
          length rs = rows
          \<and> list_all (\<lambda>r. case r of
                             PyList xs \<Rightarrow> length xs = cols
                               \<and> list_all (\<lambda>x. case x of PyFloat d \<Rightarrow> True | _ \<Rightarrow> False) xs
                           | _ \<Rightarrow> False) rs
      | _ \<Rightarrow> False)"

subsection \<open>A small session\<close>

text \<open>
  One time point at \<open>t = 0\<close> with observed intensity \<open>10\<close> and standard deviation
  \<open>0.125\<close>, two parameters with unit scaling, and a \<open>back_calc\<close> array of 50 cells.
\<close>

definition example_args :: "pyobj list" where
  "example_args =
     [PyInt 2, PyInt 1, PyList [PyFloat (Fin 10)], PyList [PyFloat (Fin (1 / 8))],
      PyList [PyFloat (Fin 0)], PyList [PyFloat (Fin 1), PyFloat (Fin 1)]]"

definition example_session :: module_state where
  "example_session =
     \<lparr>params = [NaN, NaN], values_arr = [Fin 10], sd = [Fin (1 / 8)], relax_times = [Fin 0],
      scaling_matrix = [Fin 1, Fin 1], num_params = 2, num_times = 1,
      back_calc = replicate 50 (Fin 0)\<rparr>"

text \<open>The session after \<open>func([10, 0.5])\<close>: the model gives \<open>10 * exp(0) = 10\<close>.\<close>

definition example_evaluated :: module_state where
  "example_evaluated =
     example_session\<lparr>params := [Fin 10, Fin (1 / 2)], back_calc := Fin 10 # replicate 49 (Fin 0)\<rparr>"

text \<open>The same call of \<open>setup\<close> with a standard deviation of zero.\<close>

definition zero_sd_args :: "pyobj list" where
  "zero_sd_args =
     [PyInt 2, PyInt 1, PyList [PyFloat (Fin 10)], PyList [PyFloat (Fin 0)],
      PyList [PyFloat (Fin 0)], PyList [PyFloat (Fin 1), PyFloat (Fin 1)]]"

definition zero_sd_session :: module_state where
  "zero_sd_session = example_session\<lparr>sd := [Fin 0]\<rparr>"

text \<open>
  The same call with sequences longer than announced: three values, two standard
  deviations and four time points for \<open>num_times = 1\<close>, three scaling factors for
  \<open>num_params = 2\<close>.
\<close>

definition surplus_args :: "pyobj list" where
  "surplus_args =
     [PyInt 2, PyInt 1,
      PyList [PyFloat (Fin 10), PyFloat (Fin 20), PyFloat (Fin 30)],
      PyList [PyFloat (Fin (1 / 8)), PyFloat (Fin (1 / 4))],
      PyList [PyFloat (Fin 0), PyFloat (Fin 1), PyFloat (Fin 2), PyFloat (Fin 3)],
      PyList [PyFloat (Fin 1), PyFloat (Fin 1), PyFloat (Fin 7)]]"

text \<open>
  A second fitting problem (observed intensity \<open>7\<close>, standard deviation \<open>1\<close>), and
  the variables once \<open>setup\<close> has been called for it after the first problem was
  evaluated.
\<close>

definition other_args :: "pyobj list" where
  "other_args =
     [PyInt 2, PyInt 1, PyList [PyFloat (Fin 7)], PyList [PyFloat (Fin 1)],
      PyList [PyFloat (Fin 0)], PyList [PyFloat (Fin 1), PyFloat (Fin 1)]]"

definition other_session :: module_state where
  "other_session =
     example_evaluated\<lparr>params := [NaN, NaN], values_arr := [Fin 7], sd := [Fin 1]\<rparr>"

text \<open>
  A problem with 51 time points, one more than the \<open>back_calc\<close> array of 50 cells
  holds, and the variables as \<open>setup\<close> leaves them for it.
\<close>

definition long_args :: "pyobj list" where
  "long_args =
     [PyInt 2, PyInt 51, PyList (map PyFloat (replicate 51 (Fin 1))),
      PyList (map PyFloat (replicate 51 (Fin 1))), PyList (map PyFloat (replicate 51 (Fin 0))),
      PyList [PyFloat (Fin 1), PyFloat (Fin 1)]]"

definition long_session :: module_state where
  "long_session =
     \<lparr>params = [NaN, NaN], values_arr = replicate 51 (Fin 1), sd = replicate 51 (Fin 1),
      relax_times = replicate 51 (Fin 0), scaling_matrix = [Fin 1, Fin 1], num_params = 2,
      num_times = 51, back_calc = replicate 50 (Fin 0)\<rparr>"


text \<open>
  A session with the observed intensity \<open>16781314\<close> and standard deviation \<open>1\<close>, and
  the variables after \<open>func([16777217, 0])\<close>: the model gives \<open>16777217 = 2^24 + 1\<close>,
  the residual is \<open>4097\<close>.
\<close>

definition wide_session :: module_state where
  "wide_session =
     \<lparr>params = [NaN, NaN], values_arr = [Fin 16781314], sd = [Fin 1], relax_times = [Fin 0],
      scaling_matrix = [Fin 1, Fin 1], num_params = 2, num_times = 1,
      back_calc = replicate 50 (Fin 0)\<rparr>"

definition wide_evaluated :: module_state where
  "wide_evaluated =
     wide_session\<lparr>params := [Fin 16777217, Fin 0],
                   back_calc := Fin 16777217 # replicate 49 (Fin 0)\<rparr>"

subsection \<open>Closed forms of the loops\<close>

lemma setup_params_loop_closed:
  "i \<le> n \<Longrightarrow> n \<le> length sm \<Longrightarrow>
   setup_params_loop arg n i sm =
     take i sm @ map (\<lambda>k. PyFloat_AsDouble (PySequence_GetItem arg k)) [i..<n] @ drop n sm"
proof (induction arg n i sm rule: setup_params_loop.induct)
  case (1 arg n i sm)
  show ?case
  proof (cases "i < n")
    case True
    with "1.prems" have "i < length sm" by simp
    with True "1.IH" "1.prems" show ?thesis
      by (simp add: take_Suc_conv_app_nth upt_conv_Cons)
  next
    case False
    with "1.prems" show ?thesis by simp
  qed
qed

lemma setup_times_loop_closed:
  "i \<le> n \<Longrightarrow> n \<le> length vs \<Longrightarrow> n \<le> length sds \<Longrightarrow> n \<le> length rts \<Longrightarrow>
   setup_times_loop varg sarg rarg n i (vs, sds, rts) =
     (take i vs @ map (\<lambda>k. PyFloat_AsDouble (PySequence_GetItem varg k)) [i..<n] @ drop n vs,
      take i sds @ map (\<lambda>k. PyFloat_AsDouble (PySequence_GetItem sarg k)) [i..<n] @ drop n sds,
      take i rts @ map (\<lambda>k. PyFloat_AsDouble (PySequence_GetItem rarg k)) [i..<n] @ drop n rts)"
proof (induction varg sarg rarg n i "(vs, sds, rts)" arbitrary: vs sds rts
       rule: setup_times_loop.induct)
  case (1 varg sarg rarg n i)
  show ?case
  proof (cases "i < n")
    case True
    with "1.prems" have "i < length vs" "i < length sds" "i < length rts" by simp_all
    with True "1.hyps" "1.prems" show ?thesis
      by (simp add: take_Suc_conv_app_nth upt_conv_Cons)
  next
    case False
    with "1.prems" show ?thesis by simp
  qed
qed

lemma func_loop_closed:
  "i \<le> n \<Longrightarrow> n \<le> length ps \<Longrightarrow>
   func_loop arg sm n i ps =
     take i ps
     @ map (\<lambda>k. d_mul (PyFloat_AsDouble (PySequence_GetItem arg k)) (sm ! k)) [i..<n]
     @ drop n ps"
proof (induction arg sm n i ps rule: func_loop.induct)
  case (1 arg sm n i ps)
  show ?case
  proof (cases "i < n")
    case True
    with "1.prems" have "i < length ps" by simp
    with True "1.IH" "1.prems" show ?thesis
      by (simp add: take_Suc_conv_app_nth upt_conv_Cons)
  next
    case False
    with "1.prems" show ?thesis by simp
  qed
qed

lemma back_calc_I_loop_closed:
  "i \<le> n \<Longrightarrow> n \<le> length py \<Longrightarrow>
   back_calc_I_loop bc n i py =
     take i py @ map (\<lambda>k. Py_BuildValue_f (bc ! k)) [i..<n] @ drop n py"
proof (induction bc n i py rule: back_calc_I_loop.induct)
  case (1 bc n i py)
  show ?case
  proof (cases "i < n")
    case True
    with "1.prems" have "i < length py" by simp
    with True "1.IH" "1.prems" show ?thesis
      by (simp add: take_Suc_conv_app_nth upt_conv_Cons)
  next
    case False
    with "1.prems" show ?thesis by simp
  qed
qed

lemma chi2_loop_foldl:
  "i \<le> n \<Longrightarrow>
   chi2_loop vs sds bc n i acc = foldl (\<lambda>a k. d_add a (chi2_term vs sds bc k)) acc [i..<n]"
proof (induction vs sds bc n i acc rule: chi2_loop.induct)
  case (1 vs sds bc n i acc)
  show ?case
  proof (cases "i < n")
    case True
    with "1.IH" "1.prems" show ?thesis
      by (simp add: upt_conv_Cons)
  next
    case False
    with "1.prems" show ?thesis by simp
  qed
qed

text \<open>From here on the loops are used through their closed forms only.\<close>

declare setup_params_loop.simps [simp del]
declare setup_times_loop.simps [simp del]
declare func_loop.simps [simp del]
declare back_calc_I_loop.simps [simp del]
declare chi2_loop.simps [simp del]

subsection \<open>Rounding\<close>

lemma round_half_even_of_int [simp]: "round_half_even (of_int j) = j"
  by (simp add: round_half_even_def)


lemma round_half_even_small: "0 \<le> q \<Longrightarrow> q < 1 / 2 \<Longrightarrow> round_half_even q = 0"
proof -
  assume q: "0 \<le> q" "q < 1 / 2"
  then have "\<lfloor>q\<rfloor> = 0" by (simp add: floor_eq_iff)
  with q show ?thesis by (simp add: round_half_even_def)
qed

lemma abs_of_int_less_pow:
  fixes m :: int
  assumes "\<bar>m\<bar> < 2 ^ n"
  shows "\<bar>real_of_int m\<bar> < 2 ^ n"
proof -
  from assms have "real_of_int \<bar>m\<bar> < real_of_int (2 ^ n)"
    by (simp only: of_int_less_iff)
  then show ?thesis by simp
qed

lemma powr_int_diff:
  fixes k e :: int
  assumes "e \<le> k"
  shows "(2::real) powr of_int k / 2 powr of_int e = of_int (2 ^ nat (k - e))"
proof -
  have "(2::real) powr of_int k / 2 powr of_int e = 2 powr (of_int k - of_int e)"
    by (simp add: powr_diff)
  also have "\<dots> = 2 powr real (nat (k - e))"
    using assms by simp
  also have "\<dots> = 2 ^ nat (k - e)"
    by (simp add: powr_realpow)
  finally show ?thesis by simp
qed

lemma floor_log2_le:
  fixes m k :: int
  assumes "m \<noteq> 0" and "\<bar>m\<bar> < 2 ^ 53"
  shows "\<lfloor>log 2 \<bar>of_int m * 2 powr of_int k\<bar>\<rfloor> \<le> 52 + k"
proof -
  have pos: "0 < \<bar>real_of_int m\<bar>" using assms(1) by simp
  have "\<bar>of_int m * 2 powr of_int k\<bar> = \<bar>real_of_int m\<bar> * 2 powr of_int k"
    by (simp add: abs_mult)
  then have "log 2 \<bar>of_int m * 2 powr of_int k\<bar> = log 2 \<bar>real_of_int m\<bar> + of_int k"
    using pos by (simp add: log_mult)
  moreover have "log 2 \<bar>real_of_int m\<bar> < 53"
  proof -
    have "\<bar>real_of_int m\<bar> < 2 ^ 53"
      using assms(2) by (rule abs_of_int_less_pow)
    also have "(2::real) ^ 53 = 2 powr 53" by (simp only: powr_numeral zero_less_numeral)
    finally have "\<bar>real_of_int m\<bar> < 2 powr 53" .
    then show ?thesis using pos by (simp add: log_less_iff)
  qed
  ultimately have "log 2 \<bar>of_int m * 2 powr of_int k\<bar> < of_int (53 + k)" by simp
  then have "\<lfloor>log 2 \<bar>of_int m * 2 powr of_int k\<bar>\<rfloor> < 53 + k"
    by (simp add: floor_less_iff)
  then show ?thesis by simp
qed

lemma round_double_exact:
  assumes "is_double x"
  shows "round_double x = Fin x"
proof (cases "x = 0")
  case True
  then show ?thesis by (simp add: round_double_def)
next
  case False
  from assms obtain m k :: int where m: "\<bar>m\<bar> < 2 ^ 53" and k: "- 1074 \<le> k" "k \<le> 971"
    and x: "x = of_int m * 2 powr of_int k"
    unfolding is_double_def by blast
  from False x have m0: "m \<noteq> 0" by auto
  define e where "e = ulp_exponent x"
  have "\<lfloor>log 2 \<bar>x\<bar>\<rfloor> \<le> 52 + k"
    unfolding x using m0 m by (rule floor_log2_le)
  with k have ek: "e \<le> k"
    by (simp add: e_def ulp_exponent_def)
  have q: "x / 2 powr of_int e = of_int (m * 2 ^ nat (k - e))"
  proof -
    have "x / 2 powr of_int e = of_int m * (2 powr of_int k / 2 powr of_int e)"
      by (simp add: x)
    also have "\<dots> = of_int m * of_int (2 ^ nat (k - e))"
      using ek by (simp only: powr_int_diff)
    finally show ?thesis by simp
  qed
  have y: "of_int (round_half_even (x / 2 powr of_int e)) * 2 powr of_int e = x"
  proof -
    have "of_int (round_half_even (x / 2 powr of_int e)) * 2 powr of_int e
            = (x / 2 powr of_int e) * 2 powr of_int e"
      by (simp only: q round_half_even_of_int)
    then show ?thesis by simp
  qed
  have bound: "\<bar>x\<bar> < 2 ^ 1024"
  proof -
    have a: "\<bar>real_of_int m\<bar> < 2 ^ 53"
      using m by (rule abs_of_int_less_pow)
    have "(2::real) powr of_int k \<le> 2 powr 971"
      using k by (intro powr_mono) simp_all
    also have "(2::real) powr 971 = 2 ^ 971"
      by (simp only: powr_numeral zero_less_numeral)
    finally have b: "(2::real) powr of_int k \<le> 2 ^ 971" .
    have "\<bar>real_of_int m\<bar> * 2 powr of_int k < 2 ^ 53 * 2 ^ 971"
      using a b by (intro mult_less_le_imp_less) simp_all
    also have "(2::real) ^ 53 * 2 ^ 971 = 2 ^ 1024"
      by (simp only: power_add [symmetric]) simp
    finally have "\<bar>real_of_int m\<bar> * 2 powr of_int k < 2 ^ 1024" .
    moreover have "\<bar>x\<bar> = \<bar>real_of_int m\<bar> * 2 powr of_int k"
      unfolding x abs_mult by simp
    ultimately show ?thesis by (simp only:)
  qed
  from False y bound show ?thesis
    by (simp add: round_double_def Let_def e_def [symmetric])
qed

lemma is_double_of_int: "\<bar>n\<bar> < 2 ^ 53 \<Longrightarrow> is_double (of_int n)"
  unfolding is_double_def by (rule exI [of _ n], rule exI [of _ 0]) simp

lemma is_double_powr: "- 1074 \<le> k \<Longrightarrow> k \<le> 971 \<Longrightarrow> is_double (2 powr of_int k)"
  unfolding is_double_def by (rule exI [of _ 1], rule exI [of _ k]) simp

lemma round_double_of_int: "\<bar>n\<bar> < 2 ^ 53 \<Longrightarrow> round_double (of_int n) = Fin (of_int n)"
  by (intro round_double_exact is_double_of_int)

lemma round_double_0 [simp]: "round_double 0 = Fin 0"
  by (simp add: round_double_def)

lemma round_double_1 [simp]: "round_double 1 = Fin 1"
  using round_double_of_int [of 1] by simp

lemma round_double_numeral [simp]:
  "(numeral k :: int) < 2 ^ 53 \<Longrightarrow> round_double (numeral k) = Fin (numeral k)"
  using round_double_of_int [of "numeral k"] by simp

lemma round_double_neg_numeral [simp]:
  "(numeral k :: int) < 2 ^ 53 \<Longrightarrow> round_double (- numeral k) = Fin (- numeral k)"
  using round_double_of_int [of "- numeral k"] by simp

lemma round_double_half [simp]: "round_double (1 / 2) = Fin (1 / 2)"
proof -
  have "is_double (2 powr of_int (- 1))" by (rule is_double_powr) simp_all
  then have "is_double (1 / 2)" by (simp add: powr_minus_divide)
  then show ?thesis by (rule round_double_exact)
qed



lemma ulp_exponent_normal:
  fixes k :: int
  assumes "2 powr of_int k \<le> \<bar>x\<bar>" and "\<bar>x\<bar> < 2 powr (of_int k + 1)" and "- 1022 \<le> k"
  shows "ulp_exponent x = k - 52"
proof -
  have pos: "0 < \<bar>x\<bar>"
    using assms(1) by (rule less_le_trans [rotated]) simp
  have "of_int k \<le> log 2 \<bar>x\<bar>"
    using assms(1) pos by (simp add: le_log_iff)
  moreover have "log 2 \<bar>x\<bar> < of_int k + 1"
    using assms(2) pos by (simp add: log_less_iff)
  ultimately have "\<lfloor>log 2 \<bar>x\<bar>\<rfloor> = k"
    by (simp add: floor_eq_iff)
  with assms(3) show ?thesis by (simp add: ulp_exponent_def)
qed

lemma ulp_exponent_subnormal:
  assumes "x \<noteq> 0" and "\<bar>x\<bar> < 2 powr (- 1022)"
  shows "ulp_exponent x = - 1074"
proof -
  have pos: "0 < \<bar>x\<bar>" using assms(1) by simp
  have "log 2 \<bar>x\<bar> < - 1022"
    using assms(2) pos by (simp add: log_less_iff)
  then have "\<lfloor>log 2 \<bar>x\<bar>\<rfloor> < - 1022"
    by (simp add: floor_less_iff)
  then show ?thesis unfolding ulp_exponent_def by linarith
qed

lemma round_double_underflow:
  assumes "0 < x" and "x < 2 powr (- 1075)"
  shows "round_double x = Fin 0"
proof -
  have "(2::real) powr (- 1075) \<le> 2 powr (- 1022)" by (intro powr_mono) simp_all
  with assms have "\<bar>x\<bar> < 2 powr (- 1022)" by linarith
  with assms(1) have e: "ulp_exponent x = - 1074"
    by (intro ulp_exponent_subnormal) simp_all
  have "x / 2 powr (- 1074) < 2 powr (- 1075) / 2 powr (- 1074)"
    using assms(2) by (simp add: divide_strict_right_mono)
  also have "(2::real) powr (- 1075) / 2 powr (- 1074) = 2 powr (- 1)"
    by (simp only: powr_diff [symmetric]) simp
  also have "(2::real) powr (- 1) = 1 / 2" by (simp add: powr_minus_divide)
  finally have "x / 2 powr (- 1074) < 1 / 2" .
  moreover have "0 \<le> x / 2 powr (- 1074)" using assms(1) by simp
  ultimately have "round_half_even (x / 2 powr (- 1074)) = 0"
    by (intro round_half_even_small)
  with assms(1) e show ?thesis
    by (simp add: round_double_def Let_def)
qed

lemma round_double_normal:
  fixes k :: int
  assumes "2 powr of_int k \<le> \<bar>x\<bar>" and "\<bar>x\<bar> < 2 powr (of_int k + 1)" and "- 1022 \<le> k"
      and "round_half_even (x / 2 powr of_int (k - 52)) = m"
      and "\<bar>of_int m * 2 powr of_int (k - 52)\<bar> < (2::real) ^ 1024"
  shows "round_double x = Fin (of_int m * 2 powr of_int (k - 52))"
proof -
  have "x \<noteq> 0"
  proof
    assume "x = 0"
    with assms(1) show False by simp
  qed
  moreover have "ulp_exponent x = k - 52"
    using assms(1-3) by (rule ulp_exponent_normal)
  ultimately show ?thesis
    using assms(4,5) by (simp add: round_double_def Let_def)
qed

lemma round_double_tiny [simp]: "round_double (2 powr (- 600)) = Fin (2 powr (- 600))"
  using is_double_powr [of "- 600"] by (intro round_double_exact) simp

lemma round_double_tiny_square [simp]:
  "round_double (2 powr (- 600) * 2 powr (- 600)) = Fin 0"
proof -
  have "(2::real) powr (- 600) * 2 powr (- 600) = 2 powr (- 1200)"
    by (simp only: powr_add [symmetric]) simp
  moreover have "(2::real) powr (- 1200) < 2 powr (- 1075)"
    by (intro powr_less_mono) simp_all
  ultimately show ?thesis
    by (intro round_double_underflow) simp_all
qed

lemma round_double_2_54 [simp]:
  "round_double 18014398509481984 = Fin 18014398509481984"
proof -
  have "is_double (2 powr of_int 54)" by (rule is_double_powr) simp_all
  then have "is_double 18014398509481984" by simp
  then show ?thesis by (rule round_double_exact)
qed

lemma round_double_2_54_plus_1 [simp]:
  "round_double 18014398509481985 = Fin 18014398509481984"
proof -
  have "round_double 18014398509481985 = Fin (of_int 4503599627370496 * 2 powr of_int (54 - 52))"
  proof (rule round_double_normal)
    show "round_half_even (18014398509481985 / 2 powr of_int (54 - 52)) = 4503599627370496"
      by (simp add: round_half_even_def Let_def)
  qed simp_all
  then show ?thesis by simp
qed

lemma round_double_2_54_plus_3 [simp]:
  "round_double 18014398509481987 = Fin 18014398509481988"
proof -
  have "round_double 18014398509481987 = Fin (of_int 4503599627370497 * 2 powr of_int (54 - 52))"
  proof (rule round_double_normal)
    show "round_half_even (18014398509481987 / 2 powr of_int (54 - 52)) = 4503599627370497"
      by (simp add: round_half_even_def Let_def)
  qed simp_all
  then show ?thesis by simp
qed

lemma odd_int_not_float32:
  fixes n :: int
  assumes "odd n" and "2 ^ 24 \<le> \<bar>n\<bar>"
  shows "\<not> is_float32 (of_int n)"
proof
  assume "is_float32 (of_int n)"
  then obtain m e :: int where m: "\<bar>m\<bar> < 2 ^ 24" and eq: "real_of_int n = of_int m * 2 powr of_int e"
    unfolding is_float32_def by blast
  show False
  proof (cases "0 \<le> e")
    case True
    then have "(2::real) powr of_int e = 2 ^ nat e"
      by (simp add: powr_realpow [symmetric])
    with eq have "real_of_int n = of_int (m * 2 ^ nat e)" by simp
    then have n: "n = m * 2 ^ nat e" by (simp only: of_int_eq_iff)
    show False
    proof (cases "nat e = 0")
      case True
      with n m assms(2) show False by simp
    next
      case False
      then have "even ((2::int) ^ nat e)" by simp
      with n assms(1) show False by simp
    qed
  next
    case False
    then have "(2::real) powr of_int e = 1 / 2 ^ nat (- e)"
      by (simp add: powr_realpow [symmetric] powr_minus_divide)
    with eq have "real_of_int n * 2 ^ nat (- e) = of_int m" by simp
    then have "real_of_int (n * 2 ^ nat (- e)) = of_int m" by simp
    then have "n * 2 ^ nat (- e) = m" by (simp only: of_int_eq_iff)
    then have "m = n * 2 ^ nat (- e)" by (rule sym)
    then have "\<bar>m\<bar> = \<bar>n\<bar> * 2 ^ nat (- e)" by (simp add: abs_mult)
    moreover have "(1::int) \<le> 2 ^ nat (- e)" by simp
    ultimately have "\<bar>n\<bar> \<le> \<bar>m\<bar>"
      by (metis abs_ge_zero mult.right_neutral mult_left_mono)
    with m assms(2) show False by simp
  qed
qed

lemma not_float32_examples: "\<not> is_float32 16785409" "\<not> is_float32 16777217"
  using odd_int_not_float32 [of 16785409] odd_int_not_float32 [of 16777217] by simp_all

text \<open>
  Two products that are not exact: \<open>2^1023 * 2\<close> overflows to the infinity, and the
  square of \<open>1 + 2^-30\<close> loses its last term \<open>2^-60\<close>.
\<close>

lemma round_double_overflow: "round_double (2 powr 1024) = PInf"
proof -
  define x :: real where "x = 2 powr 1024"
  have pos: "0 < x" by (simp add: x_def)
  have ax: "\<bar>x\<bar> = x" using pos by simp
  have "(2::real) powr 1024 < 2 powr (1024 + 1)" by (intro powr_less_mono) simp_all
  then have "ulp_exponent x = 1024 - 52"
    by (intro ulp_exponent_normal) (simp_all only: ax, simp_all add: x_def)
  then have e: "ulp_exponent x = 972" by simp
  have "x / 2 powr of_int 972 = 2 powr (1024 - 972)"
    unfolding x_def by (simp only: powr_diff) simp
  also have "\<dots> = 2 powr 52" by simp
  also have "\<dots> = of_int (2 ^ 52)" by (simp add: powr_numeral)
  finally have q: "x / 2 powr of_int 972 = of_int (2 ^ 52)" .
  have "of_int (2 ^ 52) * 2 powr of_int 972 = (2::real) powr 52 * 2 powr 972"
    by (simp add: powr_numeral)
  also have "\<dots> = 2 powr (52 + 972)" by (simp only: powr_add)
  also have "\<dots> = x" by (simp add: x_def)
  finally have y: "of_int (2 ^ 52) * 2 powr of_int 972 = x" .
  have big: "(2::real) ^ 1024 \<le> \<bar>x\<bar>"
    unfolding ax x_def by (simp only: powr_numeral zero_less_numeral order_refl)
  have "round_double x = PInf"
    unfolding round_double_def Let_def e q round_half_even_of_int y
    using pos big by (simp only: if_True if_False less_irrefl) (use pos in auto)
  then show ?thesis by (simp only: x_def)
qed

lemma d_mul_overflows: "d_mul (Fin (2 powr 1023)) (Fin 2) = PInf"
proof -
  have "(2::real) powr 1023 * 2 = 2 powr 1023 * 2 powr 1" by simp
  also have "\<dots> = 2 powr (1023 + 1)" by (simp only: powr_add)
  also have "\<dots> = 2 powr 1024" by simp
  finally show ?thesis by (simp only: d_mul.simps round_double_overflow)
qed

lemma d_mul_rounds:
  "d_mul (Fin (1 + 1 / 2 ^ 30)) (Fin (1 + 1 / 2 ^ 30)) = Fin (1 + 1 / 2 ^ 29)"
proof -
  have "round_double ((1 + 1 / 2 ^ 30) * (1 + 1 / 2 ^ 30)) =
          Fin (of_int 4503599635759104 * 2 powr of_int (0 - 52))"
  proof (rule round_double_normal)
    show "round_half_even ((1 + 1 / 2 ^ 30) * (1 + 1 / 2 ^ 30) / 2 powr of_int (0 - 52)) =
            4503599635759104"
      by (simp add: round_half_even_def Let_def powr_minus_divide)
  qed (simp_all add: powr_minus_divide)
  then show ?thesis by (simp add: powr_minus_divide)
qed

subsection \<open>What \<open>setup\<close> computes\<close>

lemma length_converted [simp]: "length (converted arg n) = n"
  by (simp add: converted_def)

lemma setup_params_loop_converted:
  "setup_params_loop arg (nat n) 0 (malloc_double n) = converted arg (nat n)"
  by (simp add: setup_params_loop_closed malloc_double_def converted_def)

lemma setup_times_loop_converted:
  "setup_times_loop varg sarg rarg (nat n) 0 (malloc_double n, malloc_double n, malloc_double n) =
     (converted varg (nat n), converted sarg (nat n), converted rarg (nat n))"
  by (simp add: setup_times_loop_closed malloc_double_def converted_def)

lemma setup_fn_six:
  "setup_fn st [a0, a1, v, s, r, m] =
     (case parse_i a0 of
        None \<Rightarrow> ReturnedNULL st
      | Some np \<Rightarrow>
         (case parse_i a1 of
            None \<Rightarrow> ReturnedNULL (st\<lparr>num_params := np\<rparr>)
          | Some nt \<Rightarrow>
              (if seq_error m (nat np) \<or> seq_error v (nat nt) \<or> seq_error s (nat nt)
                  \<or> seq_error r (nat nt)
               then RaisedSystemError
                (st\<lparr>num_params := np, num_times := nt, params := malloc_double np,
                    values_arr := converted v (nat nt), sd := converted s (nat nt),
                    relax_times := converted r (nat nt),
                    scaling_matrix := converted m (nat np)\<rparr>)
               else Returned PyNone
                (st\<lparr>num_params := np, num_times := nt, params := malloc_double np,
                    values_arr := converted v (nat nt), sd := converted s (nat nt),
                    relax_times := converted r (nat nt),
                    scaling_matrix := converted m (nat np)\<rparr>))))"
  by (simp add: setup_fn_def setup_params_loop_converted setup_times_loop_converted Let_def
           split: option.splits)

lemma setup_fn_Returned:
  assumes "setup_fn st args = Returned obj st'"
  shows "\<exists>a0 a1 v s r m np nt.
           args = [a0, a1, v, s, r, m] \<and> parse_i a0 = Some np \<and> parse_i a1 = Some nt
           \<and> \<not> seq_error m (nat np) \<and> \<not> seq_error v (nat nt) \<and> \<not> seq_error s (nat nt)
           \<and> \<not> seq_error r (nat nt)
           \<and> obj = PyNone
           \<and> st' = st\<lparr>num_params := np, num_times := nt, params := malloc_double np,
                    values_arr := converted v (nat nt), sd := converted s (nat nt),
                    relax_times := converted r (nat nt),
                    scaling_matrix := converted m (nat np)\<rparr>"
proof -
  from assms have len: "length args = 6"
    by (auto simp: setup_fn_def Let_def split: if_splits list.splits option.splits)
  then obtain a0 a1 v s r m where args: "args = [a0, a1, v, s, r, m]"
    by (auto simp: length_Suc_conv eval_nat_numeral)
  with assms show ?thesis
    by (auto simp: setup_fn_six split: option.splits if_splits)
qed

lemma setup_fn_sizes:
  assumes "setup_fn st args = Returned obj st'"
  shows "length (params st') = nat (num_params st')"
    and "length (scaling_matrix st') = nat (num_params st')"
    and "length (values_arr st') = nat (num_times st')"
    and "length (sd st') = nat (num_times st')"
    and "length (relax_times st') = nat (num_times st')"
    and "back_calc st' = back_calc st"
  using setup_fn_Returned [OF assms] by (auto simp: malloc_double_def)

lemma converted_floats:
  "n \<le> length xs \<Longrightarrow> converted (PyList (map PyFloat xs)) n = take n xs"
  by (rule nth_equalityI) (simp_all add: converted_def)

lemma seq_error_floats:
  "n \<le> length xs \<Longrightarrow> \<not> seq_error (PyList (map PyFloat xs)) n"
  by (auto simp: seq_error_def list_ex_iff)

lemma conversion_error_number: "is_number x \<Longrightarrow> \<not> conversion_error (Some x)"
  by (cases x) simp_all

lemma seq_error_numbers:
  assumes "n \<le> length raw" and "list_all is_number raw"
  shows "\<not> seq_error (PyList raw) n"
proof -
  have "\<not> conversion_error (PySequence_GetItem (PyList raw) k)" if "k < n" for k
  proof -
    from that assms(1) have k: "k < length raw" by simp
    with assms(2) have "is_number (raw ! k)" by (simp add: list_all_length)
    with k show ?thesis by (simp add: conversion_error_number)
  qed
  then show ?thesis by (auto simp: seq_error_def list_ex_iff)
qed

subsection \<open>What \<open>func\<close> and \<open>back_calc_I\<close> compute\<close>

lemma func_loop_scaled:
  assumes "length raw = n" and "length sm = n" and "length ps = n"
  shows "func_loop (PyList raw) sm n 0 ps = scaled_params raw sm"
proof (rule nth_equalityI)
  from assms show "length (func_loop (PyList raw) sm n 0 ps) = length (scaled_params raw sm)"
    by (simp add: func_loop_closed scaled_params_def)
next
  fix k
  assume "k < length (func_loop (PyList raw) sm n 0 ps)"
  with assms have "k < n"
    by (simp add: func_loop_closed)
  with assms show "func_loop (PyList raw) sm n 0 ps ! k = scaled_params raw sm ! k"
    by (simp add: func_loop_closed scaled_params_def)
qed

lemma func_objective_step:
  assumes "constructed st" and "keeps_size ev" and "length raw = nat (num_params st)"
      and "list_all is_number raw"
  shows "func ev st [PyList raw] =
           Returned (PyFloat (fst (objective_step ev st raw))) (snd (objective_step ev st raw))"
proof -
  from assms(1,3)
  have ps: "func_loop (PyList raw) (scaling_matrix st) (nat (num_params st)) 0 (params st) =
              scaled_params raw (scaling_matrix st)"
    by (intro func_loop_scaled) (simp_all add: constructed_def)
  from assms(2) have len: "\<And>ps ts n. length (ev ps ts (back_calc st) n) = length (back_calc st)"
    by (simp add: keeps_size_def)
  from assms(3,4) have ok: "\<not> seq_error (PyList raw) (nat (num_params st))"
    by (intro seq_error_numbers) simp_all
  from assms(1) show ?thesis
    by (simp add: func_def ps len ok objective_step_def Let_def constructed_def
          Py_BuildValue_f_def)
qed

lemma objective_step_constructed:
  assumes "constructed st" and "keeps_size ev" and "length raw = nat (num_params st)"
  shows "constructed (snd (objective_step ev st raw))"
  using assms
  by (simp add: objective_step_def Let_def constructed_def keeps_size_def scaled_params_def)


lemma keeps_size_exponential: "keeps_size exponential"
  by (auto simp: keeps_size_def exponential_def)

lemma func_Returned:
  assumes "func ev st args = Returned r st'"
  shows "\<exists>p. args = [p]
           \<and> st' = st\<lparr>params := func_loop p (scaling_matrix st) (nat (num_params st)) 0 (params st),
                      back_calc := ev (func_loop p (scaling_matrix st) (nat (num_params st)) 0 (params st))
                                      (relax_times st) (back_calc st) (num_times st)\<rparr>
           \<and> nat (num_times st) \<le> length (back_calc st')
           \<and> r = PyFloat (chi2 (values_arr st) (sd st) (back_calc st') (num_times st))"
  using assms
  by (auto simp: func_def Let_def Py_BuildValue_f_def split: list.splits if_splits)

lemma map_take_nth:
  "n \<le> length xs \<Longrightarrow> map (\<lambda>k. f (xs ! k)) [0..<n] = map f (take n xs)"
  by (rule nth_equalityI) simp_all

lemma back_calc_I_closed:
  assumes "0 \<le> num_times st" and "nat (num_times st) \<le> length (back_calc st)"
  shows "back_calc_I st args =
           Returned (PyList (map PyFloat (take (nat (num_times st)) (back_calc st)))) st"
  using assms
  by (simp add: back_calc_I_def back_calc_I_loop_closed map_take_nth Py_BuildValue_f_def)

lemma back_calc_I_Returned:
  assumes "back_calc_I st args = Returned r st'"
  shows "st' = st \<and> 0 \<le> num_times st \<and> nat (num_times st) \<le> length (back_calc st)"
  using assms by (auto simp: back_calc_I_def split: if_splits)

subsection \<open>What \<open>chi2\<close> computes\<close>

lemma chi2_foldl:
  "chi2 vs sds bc n = foldl (\<lambda>a k. d_add a (chi2_term vs sds bc k)) (Fin 0) [0..<nat n]"
  by (simp add: chi2_def chi2_loop_foldl)







subsection \<open>The small sessions, computed\<close>

lemmas session_eval =
  setup_fn_six module_init_def malloc_double_def converted_def seq_error_def
  numeral_2_eq_2 upt_conv_Cons

lemmas step_eval =
  objective_step_def scaled_params_def exponential_def chi2_foldl chi2_term_def d_sub_def
  Let_def numeral_2_eq_2 upt_conv_Cons

lemma example_setup: "setup_fn (module_init 50) example_args = Returned PyNone example_session"
  by (simp add: example_args_def example_session_def session_eval)

lemma example_constructed: "constructed example_session"
  by (simp add: constructed_def example_session_def)


lemma example_first_step:
  "objective_step exponential example_session [PyFloat (Fin 10), PyFloat (Fin (1 / 2))] =
     (Fin 0, example_evaluated)"
  by (simp add: example_session_def example_evaluated_def step_eval)

lemma example_second_step:
  "objective_step exponential example_evaluated [PyFloat (Fin 9), PyFloat (Fin (1 / 2))] =
     (Fin 64, example_session\<lparr>params := [Fin 9, Fin (1 / 2)],
                              back_calc := Fin 9 # replicate 49 (Fin 0)\<rparr>)"
  by (simp add: example_session_def example_evaluated_def step_eval)

lemma example_first_func:
  "func exponential example_session [PyList [PyFloat (Fin 10), PyFloat (Fin (1 / 2))]] =
     Returned (PyFloat (Fin 0)) example_evaluated"
proof -
  have len: "length [PyFloat (Fin 10), PyFloat (Fin (1 / 2))] = nat (num_params example_session)"
    by (simp add: example_session_def)
  have num: "list_all is_number [PyFloat (Fin 10), PyFloat (Fin (1 / 2))]"
    by simp
  from func_objective_step [OF example_constructed keeps_size_exponential len num]
  show ?thesis
    by (simp only: example_first_step fst_conv snd_conv)
qed

lemma example_cells:
  "map PyFloat (take (nat (num_times example_session)) (back_calc example_session)) =
     [PyFloat (Fin 0)]"
  "map PyFloat (take (nat (num_times example_session)) (back_calc example_evaluated)) =
     [PyFloat (Fin 10)]"
  by (simp_all add: example_session_def example_evaluated_def)

lemma zero_sd_setup: "setup_fn (module_init 50) zero_sd_args = Returned PyNone zero_sd_session"
  by (simp add: zero_sd_args_def zero_sd_session_def example_session_def session_eval)

lemma zero_sd_func:
  "func exponential zero_sd_session [PyList [PyFloat (Fin 5), PyFloat (Fin (1 / 2))]] =
     Returned (PyFloat PInf)
       (zero_sd_session\<lparr>params := [Fin 5, Fin (1 / 2)], back_calc := Fin 5 # replicate 49 (Fin 0)\<rparr>)"
proof -
  have c: "constructed zero_sd_session"
    by (simp add: constructed_def zero_sd_session_def example_session_def)
  have len: "length [PyFloat (Fin 5), PyFloat (Fin (1 / 2))] = nat (num_params zero_sd_session)"
    by (simp add: zero_sd_session_def example_session_def)
  have num: "list_all is_number [PyFloat (Fin 5), PyFloat (Fin (1 / 2))]"
    by simp
  have "objective_step exponential zero_sd_session [PyFloat (Fin 5), PyFloat (Fin (1 / 2))] =
     (PInf, zero_sd_session\<lparr>params := [Fin 5, Fin (1 / 2)],
                            back_calc := Fin 5 # replicate 49 (Fin 0)\<rparr>)"
    by (simp add: zero_sd_session_def example_session_def step_eval inf_signed_def)
  with func_objective_step [OF c keeps_size_exponential len num]
  show ?thesis by (simp only: fst_conv snd_conv)
qed

lemma other_setup: "setup_fn example_evaluated other_args = Returned PyNone other_session"
  by (simp add: other_args_def other_session_def example_evaluated_def example_session_def
        session_eval)

lemma other_func:
  "func exponential other_session [PyList [PyFloat (Fin 10), PyFloat (Fin (1 / 2))]] =
     Returned (PyFloat (Fin 9)) (other_session\<lparr>params := [Fin 10, Fin (1 / 2)]\<rparr>)"
proof -
  have c: "constructed other_session"
    by (simp add: constructed_def other_session_def example_evaluated_def example_session_def)
  have len: "length [PyFloat (Fin 10), PyFloat (Fin (1 / 2))] = nat (num_params other_session)"
    by (simp add: other_session_def example_evaluated_def example_session_def)
  have num: "list_all is_number [PyFloat (Fin 10), PyFloat (Fin (1 / 2))]"
    by simp
  have "objective_step exponential other_session [PyFloat (Fin 10), PyFloat (Fin (1 / 2))] =
     (Fin 9, other_session\<lparr>params := [Fin 10, Fin (1 / 2)]\<rparr>)"
    by (simp add: other_session_def example_evaluated_def example_session_def step_eval)
  with func_objective_step [OF c keeps_size_exponential len num]
  show ?thesis by (simp only: fst_conv snd_conv)
qed

lemma long_setup: "setup_fn (module_init 50) long_args = Returned PyNone long_session"
proof -
  have a: "parse_i (PyInt 2) = Some 2" "parse_i (PyInt 51) = Some 51" by simp_all
  have e: "\<not> seq_error (PyList (map PyFloat (replicate 51 (Fin 1)))) (nat 51)"
          "\<not> seq_error (PyList (map PyFloat (replicate 51 (Fin 0)))) (nat 51)"
          "\<not> seq_error (PyList (map PyFloat [Fin 1, Fin 1])) (nat 2)"
    by (rule seq_error_floats, simp)+
  have c: "converted (PyList (map PyFloat (replicate 51 (Fin 1)))) (nat 51) = replicate 51 (Fin 1)"
          "converted (PyList (map PyFloat (replicate 51 (Fin 0)))) (nat 51) = replicate 51 (Fin 0)"
          "converted (PyList (map PyFloat [Fin 1, Fin 1])) (nat 2) = [Fin 1, Fin 1]"
    by (subst converted_floats, simp, simp)+
  have l: "[PyFloat (Fin 1), PyFloat (Fin 1)] = map PyFloat [Fin 1, Fin 1]" by simp
  show ?thesis
    unfolding long_args_def l setup_fn_six a option.case
    using e c by (simp add: long_session_def module_init_def malloc_double_def numeral_2_eq_2)
qed

lemma long_func:
  "func exponential long_session [PyList [PyFloat (Fin 1), PyFloat (Fin 1)]] = UndefinedBehaviour"
proof -
  have "length (exponential ps ts (back_calc long_session) n) = 50" for ps ts n
    using keeps_size_exponential by (simp add: keeps_size_def long_session_def)
  then show ?thesis
    by (simp add: func_def Let_def long_session_def)
qed




lemma wide_func:
  "func exponential wide_session [PyList [PyFloat (Fin 16777217), PyFloat (Fin 0)]] =
     Returned (PyFloat (Fin 16785409)) wide_evaluated"
proof -
  have c: "constructed wide_session"
    by (simp add: constructed_def wide_session_def)
  have len: "length [PyFloat (Fin 16777217), PyFloat (Fin 0)] = nat (num_params wide_session)"
    by (simp add: wide_session_def)
  have num: "list_all is_number [PyFloat (Fin 16777217), PyFloat (Fin 0)]"
    by simp
  have "objective_step exponential wide_session [PyFloat (Fin 16777217), PyFloat (Fin 0)] =
     (Fin 16785409, wide_evaluated)"
    by (simp add: wide_session_def wide_evaluated_def step_eval)
  with func_objective_step [OF c keeps_size_exponential len num]
  show ?thesis by (simp only: fst_conv snd_conv)
qed

lemma wide_back_calc_I:
  "back_calc_I wide_evaluated [] = Returned (PyList [PyFloat (Fin 16777217)]) wide_evaluated"
proof -
  have "back_calc_I wide_evaluated [] =
          Returned (PyList (map PyFloat (take (nat (num_times wide_evaluated))
                                              (back_calc wide_evaluated)))) wide_evaluated"
    by (rule back_calc_I_closed) (simp_all add: wide_evaluated_def wide_session_def)
  then show ?thesis
    by (simp add: wide_evaluated_def wide_session_def)
qed

section \<open>The properties\<close>

subsection \<open>C1: the objective entry point\<close>

text \<open>
  C1 as stated fails: \<open>setup\<close> accepts a problem with 51 time points although the
  \<open>back_calc\<close> array has 50 cells (it never compares \<open>num_times\<close> with the size of the
  array), and on the session so constructed \<open>func\<close> writes and reads past the end of
  \<open>back_calc\<close>: its behaviour is undefined, and no chi-squared value is promised.
\<close>

theorem func_overruns_back_calc:
  "setup_fn (module_init 50) long_args = Returned PyNone long_session
   \<and> length (back_calc long_session) = 50 \<and> num_times long_session = 51
   \<and> func exponential long_session [PyList [PyFloat (Fin 1), PyFloat (Fin 1)]] =
       UndefinedBehaviour"
  using long_setup long_func by (simp add: long_session_def)

text \<open>
  C1, amended. On the variables as a successful \<open>setup\<close> leaves them, provided
  \<open>num_times\<close> does not exceed the size of the \<open>back_calc\<close> array (and the evaluator
  writes in place), \<open>func\<close> applied to a list of \<open>num_params\<close> numbers multiplies every
  raw parameter by the scaling factor at its position, lets the evaluator rewrite
  \<open>back_calc\<close> from the scaled parameters, and returns
  \<open>chi2(values, sd, back_calc, num_times)\<close> as a float: this is \<open>objective_step\<close>. It
  leaves the variables ready for the next call: a second call with another list of
  numbers does the same on them, without a new \<open>setup\<close>.
\<close>

theorem func_scales_evaluates_reduces:
  assumes "setup_fn st0 sargs = Returned obj st"
      and "nat (num_times st) \<le> length (back_calc st)"
      and "keeps_size ev"
      and "length raw = nat (num_params st)" and "list_all is_number raw"
      and "length raw' = nat (num_params st)" and "list_all is_number raw'"
  shows "func ev st [PyList raw] =
           Returned (PyFloat (fst (objective_step ev st raw))) (snd (objective_step ev st raw))
         \<and> func ev (snd (objective_step ev st raw)) [PyList raw'] =
             Returned (PyFloat (fst (objective_step ev (snd (objective_step ev st raw)) raw')))
                      (snd (objective_step ev (snd (objective_step ev st raw)) raw'))"
proof -
  from setup_fn_sizes [OF assms(1)] assms(2) have c: "constructed st"
    by (simp add: constructed_def)
  have first: "func ev st [PyList raw] =
           Returned (PyFloat (fst (objective_step ev st raw))) (snd (objective_step ev st raw))"
    using c assms(3,4,5) by (rule func_objective_step)
  have c': "constructed (snd (objective_step ev st raw))"
    using c assms(3,4) by (rule objective_step_constructed)
  have "num_params (snd (objective_step ev st raw)) = num_params st"
    by (simp add: objective_step_def Let_def)
  with assms(6) have "length raw' = nat (num_params (snd (objective_step ev st raw)))"
    by simp
  with c' assms(3,7) have "func ev (snd (objective_step ev st raw)) [PyList raw'] =
             Returned (PyFloat (fst (objective_step ev (snd (objective_step ev st raw)) raw')))
                      (snd (objective_step ev (snd (objective_step ev st raw)) raw'))"
    by (intro func_objective_step)
  with first show ?thesis by simp
qed

theorem func_scales_evaluates_reduces_witness:
  "setup_fn (module_init 50) example_args = Returned PyNone example_session
   \<and> nat (num_times example_session) \<le> length (back_calc example_session)
   \<and> keeps_size exponential
   \<and> length [PyFloat (Fin 10), PyFloat (Fin (1 / 2))] = nat (num_params example_session)
   \<and> list_all is_number [PyFloat (Fin 10), PyFloat (Fin (1 / 2))]
   \<and> length [PyFloat (Fin 9), PyFloat (Fin (1 / 2))] = nat (num_params example_session)
   \<and> list_all is_number [PyFloat (Fin 9), PyFloat (Fin (1 / 2))]
   \<and> func exponential example_session [PyList [PyFloat (Fin 10), PyFloat (Fin (1 / 2))]] =
       Returned (PyFloat (Fin 0)) example_evaluated
   \<and> func exponential example_evaluated [PyList [PyFloat (Fin 9), PyFloat (Fin (1 / 2))]] =
       Returned (PyFloat (Fin 64))
         (example_session\<lparr>params := [Fin 9, Fin (1 / 2)],
                          back_calc := Fin 9 # replicate 49 (Fin 0)\<rparr>)"
proof -
  have h2: "nat (num_times example_session) \<le> length (back_calc example_session)"
    by (simp add: example_session_def)
  have h4: "length [PyFloat (Fin 10), PyFloat (Fin (1 / 2))] = nat (num_params example_session)"
    by (simp add: example_session_def)
  have h5: "list_all is_number [PyFloat (Fin 10), PyFloat (Fin (1 / 2))]"
    by simp
  have h6: "length [PyFloat (Fin 9), PyFloat (Fin (1 / 2))] = nat (num_params example_session)"
    by (simp add: example_session_def)
  have h7: "list_all is_number [PyFloat (Fin 9), PyFloat (Fin (1 / 2))]"
    by simp
  from func_scales_evaluates_reduces [OF example_setup h2 keeps_size_exponential h4 h5 h6 h7]
       example_setup h2 keeps_size_exponential h4 h5 h6 h7
  show ?thesis
    by (simp add: example_first_step example_second_step)
qed

subsection \<open>C2: the chi-squared reducer\<close>

text \<open>
  C2. For arrays with at least \<open>n\<close> cells, \<open>chi2\<close> returns the sum over
  \<open>i = 0 .. n - 1\<close> of \<open>((values[i] - back_calc[i]) / sd[i])^2\<close> as double arithmetic
  computes it when the terms are accumulated from the left in ascending index order,
  starting from \<open>0.0\<close>: every subtraction, division, multiplication and addition is the
  rounded one. Nothing is asked of the cells: the equation also holds where a standard
  deviation is zero or a cell is not finite.
\<close>

theorem chi2_ascending_sum:
  assumes "n \<le> length vs" and "n \<le> length sds" and "n \<le> length bc"
  shows "chi2 vs sds bc (int n) =
           foldl (\<lambda>acc k. d_add acc (d_mul (d_div (d_sub (vs ! k) (bc ! k)) (sds ! k))
                                          (d_div (d_sub (vs ! k) (bc ! k)) (sds ! k))))
                 (Fin 0) [0..<n]"
  by (simp add: chi2_foldl chi2_term_def Let_def)

text \<open>
  The order matters, so the statement fixes it: with the residuals \<open>2^27, 1, 1, 1\<close>
  (terms \<open>2^54, 1, 1, 1\<close>) the sum is \<open>2^54\<close>, each \<open>1\<close> being lost to rounding, and
  with the same residuals in the reverse order it is \<open>2^54 + 4\<close>.
\<close>

theorem chi2_ascending_sum_witness:
  "(4::nat) \<le> length [Fin 134217728, Fin 1, Fin 1, Fin 1]
   \<and> (4::nat) \<le> length [Fin 1, Fin 1, Fin 1, Fin 1 :: cdouble]
   \<and> (4::nat) \<le> length [Fin 0, Fin 0, Fin 0, Fin 0 :: cdouble]
   \<and> chi2 [Fin 134217728, Fin 1, Fin 1, Fin 1] [Fin 1, Fin 1, Fin 1, Fin 1]
          [Fin 0, Fin 0, Fin 0, Fin 0] 4 = Fin 18014398509481984
   \<and> chi2 [Fin 1, Fin 1, Fin 1, Fin 134217728] [Fin 1, Fin 1, Fin 1, Fin 1]
          [Fin 0, Fin 0, Fin 0, Fin 0] 4 = Fin 18014398509481988"
proof -
  have up: "[0..<4] = [0, 1, 2, 3]"
    by (simp add: eval_nat_numeral upt_conv_Cons)
  have a: "chi2 [Fin 134217728, Fin 1, Fin 1, Fin 1] [Fin 1, Fin 1, Fin 1, Fin 1]
          [Fin 0, Fin 0, Fin 0, Fin 0] (int 4) = Fin 18014398509481984"
    by (subst chi2_ascending_sum) (simp_all add: up d_sub_def)
  have b: "chi2 [Fin 1, Fin 1, Fin 1, Fin 134217728] [Fin 1, Fin 1, Fin 1, Fin 1]
          [Fin 0, Fin 0, Fin 0, Fin 0] (int 4) = Fin 18014398509481988"
    by (subst chi2_ascending_sum) (simp_all add: up d_sub_def)
  from a b show ?thesis by simp
qed

subsection \<open>C3: the gradient entry point\<close>

text \<open>
  C3 asks \<open>dfunc\<close> for the gradient of the objective, a list of \<open>num_params\<close>
  partial derivatives, and for no error on well-formed input. The code does not do it:
  both \<open>return\<close> statements of \<open>dfunc\<close> return \<open>NULL\<close>, whatever the evaluator,
  the variables and the arguments, so the caller never gets a value.
\<close>

theorem dfunc_never_returns_gradient:
  "\<exists>st'. dfunc ev junk st args = ReturnedNULL st'"
  by (simp add: dfunc_def split: list.splits)

subsection \<open>C4: validation of the numeric inputs\<close>

text \<open>
  C4 as stated fails: \<open>setup\<close> called with the standard deviation \<open>0\<close> returns
  \<open>None\<close> and stores the zero, and the next \<open>func\<close> divides by it and hands the
  caller an infinity.
\<close>

theorem setup_accepts_zero_sd:
  "setup_fn (module_init 50) zero_sd_args = Returned PyNone zero_sd_session
   \<and> sd zero_sd_session = [Fin 0]
   \<and> func exponential zero_sd_session [PyList [PyFloat (Fin 5), PyFloat (Fin (1 / 2))]] =
       Returned (PyFloat PInf)
         (zero_sd_session\<lparr>params := [Fin 5, Fin (1 / 2)],
                          back_calc := Fin 5 # replicate 49 (Fin 0)\<rparr>)"
  using zero_sd_setup zero_sd_func by (simp add: zero_sd_session_def)

text \<open>
  C4, amended. \<open>setup\<close> validates none of the numbers it is given: with dimensions
  that are C \<open>int\<close>s and four lists of floats of the announced lengths it returns
  \<open>None\<close> and stores \<open>values\<close>, \<open>sd\<close>, \<open>relax_times\<close> and
  \<open>scaling_matrix\<close> exactly as given, whatever the numbers are: zero, negative,
  infinite or NaN.
\<close>

theorem setup_stores_unvalidated:
  assumes "- 2147483648 \<le> np" and "np \<le> 2147483647"
      and "- 2147483648 \<le> nt" and "nt \<le> 2147483647"
      and "length vs = nat nt" and "length sds = nat nt" and "length rts = nat nt"
      and "length sms = nat np"
  shows "setup_fn st [PyInt np, PyInt nt, PyList (map PyFloat vs), PyList (map PyFloat sds),
                      PyList (map PyFloat rts), PyList (map PyFloat sms)] =
           Returned PyNone
             (st\<lparr>num_params := np, num_times := nt, params := malloc_double np,
                 values_arr := vs, sd := sds, relax_times := rts, scaling_matrix := sms\<rparr>)"
  using assms by (simp add: setup_fn_six converted_floats seq_error_floats)

theorem setup_stores_unvalidated_witness:
  "- 2147483648 \<le> (1::int) \<and> (1::int) \<le> 2147483647
   \<and> - 2147483648 \<le> (3::int) \<and> (3::int) \<le> 2147483647
   \<and> length [NaN, Fin 1, PInf] = nat 3 \<and> length [Fin 0, Fin (- 2), NaN] = nat 3
   \<and> length [Fin 0, NInf, Fin 1] = nat 3 \<and> length [Fin 0] = nat 1
   \<and> setup_fn (module_init 50)
        [PyInt 1, PyInt 3, PyList [PyFloat NaN, PyFloat (Fin 1), PyFloat PInf],
         PyList [PyFloat (Fin 0), PyFloat (Fin (- 2)), PyFloat NaN],
         PyList [PyFloat (Fin 0), PyFloat NInf, PyFloat (Fin 1)], PyList [PyFloat (Fin 0)]] =
       Returned PyNone
         \<lparr>params = [NaN], values_arr = [NaN, Fin 1, PInf], sd = [Fin 0, Fin (- 2), NaN],
          relax_times = [Fin 0, NInf, Fin 1], scaling_matrix = [Fin 0], num_params = 1,
          num_times = 3, back_calc = replicate 50 (Fin 0)\<rparr>"
  using setup_stores_unvalidated [of 1 3 "[NaN, Fin 1, PInf]" "[Fin 0, Fin (- 2), NaN]"
          "[Fin 0, NInf, Fin 1]" "[Fin 0]" "module_init 50"]
  by (simp add: module_init_def malloc_double_def)

subsection \<open>C5: the lengths of the input sequences\<close>

text \<open>
  C5 as stated fails: \<open>setup\<close> called with sequences longer than \<open>num_times\<close> and
  \<open>num_params\<close> announce returns \<open>None\<close> and leaves the very variables that the
  call with sequences of the right lengths leaves; the surplus elements are ignored.
\<close>

theorem setup_ignores_surplus:
  "setup_fn (module_init 50) surplus_args = Returned PyNone example_session"
  by (simp add: surplus_args_def example_session_def session_eval)

text \<open>
  C5, amended. \<open>setup\<close> compares no length with \<open>num_times\<close> or \<open>num_params\<close>
  and has no dimension error: given dimensions that are C \<open>int\<close>s and lists of floats
  with at least \<open>num_times\<close> (for \<open>scaling_matrix\<close>: \<open>num_params\<close>) elements, it
  returns \<open>None\<close> and stores the first \<open>num_times\<close> (\<open>num_params\<close>) elements of
  each, ignoring the rest.
\<close>

theorem setup_takes_prefixes:
  assumes "- 2147483648 \<le> np" and "np \<le> 2147483647"
      and "- 2147483648 \<le> nt" and "nt \<le> 2147483647"
      and "nat nt \<le> length vs" and "nat nt \<le> length sds" and "nat nt \<le> length rts"
      and "nat np \<le> length sms"
  shows "setup_fn st [PyInt np, PyInt nt, PyList (map PyFloat vs), PyList (map PyFloat sds),
                      PyList (map PyFloat rts), PyList (map PyFloat sms)] =
           Returned PyNone
             (st\<lparr>num_params := np, num_times := nt, params := malloc_double np,
                 values_arr := take (nat nt) vs, sd := take (nat nt) sds,
                 relax_times := take (nat nt) rts, scaling_matrix := take (nat np) sms\<rparr>)"
  using assms by (simp add: setup_fn_six converted_floats seq_error_floats)

theorem setup_takes_prefixes_witness:
  "- 2147483648 \<le> (1::int) \<and> (1::int) \<le> 2147483647
   \<and> - 2147483648 \<le> (2::int) \<and> (2::int) \<le> 2147483647
   \<and> nat 2 \<le> length [Fin 10, Fin 6, Fin 4] \<and> nat 2 \<le> length [Fin 1, Fin 1]
   \<and> nat 2 \<le> length [Fin 0, Fin 1, Fin 2, Fin 3] \<and> nat 1 \<le> length [Fin 1, Fin 5]
   \<and> setup_fn (module_init 50)
        [PyInt 1, PyInt 2, PyList [PyFloat (Fin 10), PyFloat (Fin 6), PyFloat (Fin 4)],
         PyList [PyFloat (Fin 1), PyFloat (Fin 1)],
         PyList [PyFloat (Fin 0), PyFloat (Fin 1), PyFloat (Fin 2), PyFloat (Fin 3)],
         PyList [PyFloat (Fin 1), PyFloat (Fin 5)]] =
       Returned PyNone
         \<lparr>params = [NaN], values_arr = [Fin 10, Fin 6], sd = [Fin 1, Fin 1],
          relax_times = [Fin 0, Fin 1], scaling_matrix = [Fin 1], num_params = 1,
          num_times = 2, back_calc = replicate 50 (Fin 0)\<rparr>"
  using setup_takes_prefixes [of 1 2 "[Fin 10, Fin 6, Fin 4]" "[Fin 1, Fin 1]"
          "[Fin 0, Fin 1, Fin 2, Fin 3]" "[Fin 1, Fin 5]" "module_init 50"]
  by (simp add: module_init_def malloc_double_def numeral_2_eq_2)

subsection \<open>C6: retrieving the back-calculated intensities\<close>

text \<open>
  C6 as stated fails: right after \<open>setup\<close>, before any call of \<open>func\<close>,
  \<open>back_calc_I\<close> returns a list (the zeros the array holds since the module was
  loaded) and no error.
\<close>

theorem back_calc_I_before_func:
  "setup_fn (module_init 50) example_args = Returned PyNone example_session
   \<and> back_calc_I example_session [] = Returned (PyList [PyFloat (Fin 0)]) example_session"
proof -
  have "back_calc_I example_session [] =
          Returned (PyList (map PyFloat (take (nat (num_times example_session))
                                              (back_calc example_session)))) example_session"
    by (rule back_calc_I_closed) (simp_all add: example_session_def)
  then have "back_calc_I example_session [] = Returned (PyList [PyFloat (Fin 0)]) example_session"
    by (simp add: example_session_def take_Suc_conv_app_nth)
  with example_setup show ?thesis by simp
qed

text \<open>
  C6, amended. \<open>back_calc_I\<close> keeps no record of whether \<open>func\<close> has run and has
  no error for it. With \<open>num_times \<ge> 0\<close>: whenever \<open>back_calc\<close> has \<open>num_times\<close>
  cells, it returns a new list of the first \<open>num_times\<close> cells as floats and leaves the
  variables as they are; and after a call of \<open>func\<close> that returned, these cells are the
  ones the evaluator wrote in that call.
\<close>

theorem back_calc_I_snapshot:
  assumes "0 \<le> num_times st"
  shows "(nat (num_times st) \<le> length (back_calc st) \<longrightarrow>
            back_calc_I st args =
              Returned (PyList (map PyFloat (take (nat (num_times st)) (back_calc st)))) st)
         \<and> (\<forall>r st'. func ev st [p] = Returned r st' \<longrightarrow>
               back_calc st' = ev (params st') (relax_times st) (back_calc st) (num_times st)
               \<and> back_calc_I st' args =
                   Returned (PyList (map PyFloat (take (nat (num_times st)) (back_calc st')))) st')"
proof (intro conjI allI impI)
  assume "nat (num_times st) \<le> length (back_calc st)"
  with assms show "back_calc_I st args =
      Returned (PyList (map PyFloat (take (nat (num_times st)) (back_calc st)))) st"
    by (rule back_calc_I_closed)
next
  fix r st'
  assume f: "func ev st [p] = Returned r st'"
  from func_Returned [OF f]
  have st': "st' = st\<lparr>params := func_loop p (scaling_matrix st) (nat (num_params st)) 0 (params st),
                      back_calc := ev (func_loop p (scaling_matrix st) (nat (num_params st)) 0 (params st))
                                      (relax_times st) (back_calc st) (num_times st)\<rparr>"
    and len: "nat (num_times st) \<le> length (back_calc st')"
    by auto
  from st' show "back_calc st' = ev (params st') (relax_times st) (back_calc st) (num_times st)"
    by simp
  from st' have nt: "num_times st' = num_times st" by simp
  from assms len nt have "back_calc_I st' args =
      Returned (PyList (map PyFloat (take (nat (num_times st')) (back_calc st')))) st'"
    by (intro back_calc_I_closed) simp_all
  with nt show "back_calc_I st' args =
      Returned (PyList (map PyFloat (take (nat (num_times st)) (back_calc st')))) st'"
    by simp
qed

theorem back_calc_I_snapshot_witness:
  "0 \<le> num_times example_session
   \<and> nat (num_times example_session) \<le> length (back_calc example_session)
   \<and> back_calc_I example_session [] = Returned (PyList [PyFloat (Fin 0)]) example_session
   \<and> func exponential example_session [PyList [PyFloat (Fin 10), PyFloat (Fin (1 / 2))]] =
       Returned (PyFloat (Fin 0)) example_evaluated
   \<and> back_calc_I example_evaluated [] = Returned (PyList [PyFloat (Fin 10)]) example_evaluated"
proof -
  have h1: "0 \<le> num_times example_session"
    by (simp add: example_session_def)
  have h2: "nat (num_times example_session) \<le> length (back_calc example_session)"
    by (simp add: example_session_def)
  note snap = back_calc_I_snapshot [OF h1, of "[]" exponential
                "PyList [PyFloat (Fin 10), PyFloat (Fin (1 / 2))]"]
  from snap h2 have "back_calc_I example_session [] =
      Returned (PyList (map PyFloat (take (nat (num_times example_session))
                                          (back_calc example_session)))) example_session"
    by blast
  then have before:
    "back_calc_I example_session [] = Returned (PyList [PyFloat (Fin 0)]) example_session"
    by (simp only: example_cells)
  from snap example_first_func have "back_calc_I example_evaluated [] =
      Returned (PyList (map PyFloat (take (nat (num_times example_session))
                                          (back_calc example_evaluated)))) example_evaluated"
    by blast
  then have after:
    "back_calc_I example_evaluated [] = Returned (PyList [PyFloat (Fin 10)]) example_evaluated"
    by (simp only: example_cells)
  from h1 h2 before example_first_func after show ?thesis by simp
qed

subsection \<open>C7: the Hessian entry point\<close>

text \<open>
  C7 asks \<open>d2func\<close> for a \<open>num_params\<close> by \<open>num_params\<close> matrix of second
  derivatives. The code does not do it: \<open>d2func\<close> returns the float \<open>0.0\<close> for every
  argument and every state of the variables, and a float is no matrix.
\<close>

theorem d2func_returns_zero:
  "d2func st args = Returned (PyFloat (Fin 0)) st
   \<and> \<not> is_float_matrix (nat (num_params st)) (nat (num_params st)) (PyFloat (Fin 0))"
  by (simp add: d2func_def Py_BuildValue_f_def is_float_matrix_def)

subsection \<open>C8: sessions and the file-scope variables\<close>

text \<open>
  C8 as stated fails: the module has one set of variables. A first problem is set up and
  evaluated (objective \<open>0\<close> at the parameters \<open>[10, 0.5]\<close>); \<open>setup\<close> for a second
  problem then replaces the first problem's \<open>values\<close> and \<open>sd\<close>, and the same
  parameters now give the objective \<open>9\<close>.
\<close>

theorem second_setup_overwrites_first:
  "setup_fn (module_init 50) example_args = Returned PyNone example_session
   \<and> func exponential example_session [PyList [PyFloat (Fin 10), PyFloat (Fin (1 / 2))]] =
       Returned (PyFloat (Fin 0)) example_evaluated
   \<and> setup_fn example_evaluated other_args = Returned PyNone other_session
   \<and> values_arr example_evaluated = [Fin 10] \<and> values_arr other_session = [Fin 7]
   \<and> sd example_evaluated = [Fin (1 / 8)] \<and> sd other_session = [Fin 1]
   \<and> func exponential other_session [PyList [PyFloat (Fin 10), PyFloat (Fin (1 / 2))]] =
       Returned (PyFloat (Fin 9)) (other_session\<lparr>params := [Fin 10, Fin (1 / 2)]\<rparr>)"
  using example_setup example_first_func other_setup other_func
  by (simp add: other_session_def example_evaluated_def example_session_def)

text \<open>
  C8, amended. There are no sessions apart from the one set of file-scope variables, which
  every call shares. A successful \<open>setup\<close> leaves \<open>back_calc\<close> as it was and
  replaces \<open>num_params\<close>, \<open>num_times\<close>, \<open>values\<close>, \<open>sd\<close>, \<open>relax_times\<close>
  and \<open>scaling_matrix\<close> by data that depend on its arguments only: from any other
  state of the variables the same call succeeds with the same data, so nothing of an
  earlier problem's arrays survives it.
\<close>

theorem setup_replaces_shared_state:
  assumes "setup_fn st args = Returned obj st'"
  shows "back_calc st' = back_calc st
         \<and> (\<forall>st2. \<exists>st2'. setup_fn st2 args = Returned obj st2'
               \<and> num_params st2' = num_params st' \<and> num_times st2' = num_times st'
               \<and> values_arr st2' = values_arr st' \<and> sd st2' = sd st'
               \<and> relax_times st2' = relax_times st'
               \<and> scaling_matrix st2' = scaling_matrix st'
               \<and> back_calc st2' = back_calc st2)"
proof -
  from setup_fn_Returned [OF assms] obtain a0 a1 v s r m np nt where
    args: "args = [a0, a1, v, s, r, m]" and p0: "parse_i a0 = Some np"
    and p1: "parse_i a1 = Some nt" and obj: "obj = PyNone"
    and ok: "\<not> seq_error m (nat np)" "\<not> seq_error v (nat nt)" "\<not> seq_error s (nat nt)"
            "\<not> seq_error r (nat nt)"
    and st': "st' = st\<lparr>num_params := np, num_times := nt, params := malloc_double np,
                    values_arr := converted v (nat nt), sd := converted s (nat nt),
                    relax_times := converted r (nat nt),
                    scaling_matrix := converted m (nat np)\<rparr>"
    by blast
  from st' have "back_calc st' = back_calc st" by simp
  moreover have "\<And>st2. \<exists>st2'. setup_fn st2 args = Returned obj st2'
               \<and> num_params st2' = num_params st' \<and> num_times st2' = num_times st'
               \<and> values_arr st2' = values_arr st' \<and> sd st2' = sd st'
               \<and> relax_times st2' = relax_times st'
               \<and> scaling_matrix st2' = scaling_matrix st'
               \<and> back_calc st2' = back_calc st2"
    by (simp add: args p0 p1 obj ok st' setup_fn_six)
  ultimately show ?thesis by blast
qed

theorem setup_replaces_shared_state_witness:
  "setup_fn example_evaluated other_args = Returned PyNone other_session
   \<and> back_calc other_session = back_calc example_evaluated
   \<and> (\<exists>st2'. setup_fn (module_init 50) other_args = Returned PyNone st2'
         \<and> values_arr st2' = [Fin 7] \<and> sd st2' = [Fin 1]
         \<and> back_calc st2' = replicate 50 (Fin 0))"
proof -
  from setup_replaces_shared_state [OF other_setup]
  have "back_calc other_session = back_calc example_evaluated"
    and "\<exists>st2'. setup_fn (module_init 50) other_args = Returned PyNone st2'
               \<and> values_arr st2' = values_arr other_session \<and> sd st2' = sd other_session
               \<and> back_calc st2' = back_calc (module_init 50)"
    by blast+
  with other_setup show ?thesis
    by (simp add: other_session_def module_init_def)
qed

subsection \<open>C9: sign of the objective\<close>




subsection \<open>C10: the precision of the returned floats\<close>

text \<open>
  C10 as stated fails: \<open>func\<close> returns \<open>16785409 = 4097^2\<close> and \<open>back_calc_I\<close> then
  returns \<open>[16777217]\<close>, the doubles as computed and stored. Neither is a number of
  single precision (both are odd and larger than \<open>2^24\<close>), so neither result has been
  rounded to the nearest \<open>float\<close>.
\<close>

theorem returned_floats_not_single_precision:
  "func exponential wide_session [PyList [PyFloat (Fin 16777217), PyFloat (Fin 0)]] =
     Returned (PyFloat (Fin 16785409)) wide_evaluated
   \<and> \<not> is_float32 16785409
   \<and> back_calc_I wide_evaluated [] =
       Returned (PyList [PyFloat (Fin 16777217)]) wide_evaluated
   \<and> \<not> is_float32 16777217"
  using wide_func wide_back_calc_I not_float32_examples by simp

text \<open>
  C10, amended. \<open>Py_BuildValue\<close> with the format \<open>"f"\<close> is handed a \<open>double\<close> and
  builds a Python float of that very double: whenever \<open>func\<close> returns, the float it
  returns holds the chi-squared value exactly as computed in double precision, and
  whenever \<open>back_calc_I\<close> returns, every element of its list holds the double stored in
  the corresponding cell of \<open>back_calc\<close>. Nothing is rounded to single precision.
\<close>

theorem returned_floats_are_the_doubles:
  "(func ev st args = Returned r st' \<longrightarrow>
      r = PyFloat (chi2 (values_arr st) (sd st) (back_calc st') (num_times st)))
   \<and> (back_calc_I st2 args2 = Returned r2 st2' \<longrightarrow>
        r2 = PyList (map PyFloat (take (nat (num_times st2)) (back_calc st2))))"
proof (intro conjI impI)
  assume "func ev st args = Returned r st'"
  from func_Returned [OF this]
  show "r = PyFloat (chi2 (values_arr st) (sd st) (back_calc st') (num_times st))"
    by blast
next
  assume b: "back_calc_I st2 args2 = Returned r2 st2'"
  from back_calc_I_Returned [OF b]
  have "back_calc_I st2 args2 =
          Returned (PyList (map PyFloat (take (nat (num_times st2)) (back_calc st2)))) st2"
    by (intro back_calc_I_closed) simp_all
  with b show "r2 = PyList (map PyFloat (take (nat (num_times st2)) (back_calc st2)))"
    by auto
qed

theorem returned_floats_are_the_doubles_witness:
  "func exponential wide_session [PyList [PyFloat (Fin 16777217), PyFloat (Fin 0)]] =
     Returned (PyFloat (Fin 16785409)) wide_evaluated
   \<and> PyFloat (Fin 16785409) =
       PyFloat (chi2 (values_arr wide_session) (sd wide_session) (back_calc wide_evaluated)
                  (num_times wide_session))
   \<and> back_calc_I wide_evaluated [] =
       Returned (PyList [PyFloat (Fin 16777217)]) wide_evaluated
   \<and> PyList [PyFloat (Fin 16777217)] =
       PyList (map PyFloat (take (nat (num_times wide_evaluated)) (back_calc wide_evaluated)))"
  using returned_floats_are_the_doubles
          [of exponential wide_session "[PyList [PyFloat (Fin 16777217), PyFloat (Fin 0)]]"
              "PyFloat (Fin 16785409)" wide_evaluated wide_evaluated "[]"
              "PyList [PyFloat (Fin 16777217)]" wide_evaluated]
        wide_func wide_back_calc_I
  by simp

end
